theory Spec2Isabelle
  imports Main
begin

section \<open>Environment overlay manager\<close>

text \<open>
  The class \<open>VSConanWorkspaceEnvironment\<close> manages the process environment of the editor's
  extension host and the environment of its terminals. Its methods mutate four things: the
  process environment, the editor's environment variable collection, two keys of the
  workspace-scoped store, and the \<open>.env\<close> file of the workspace. The model threads a
  record of these through every method. What the class only reads (a user setting, the
  workspace selection, the platform's path functions, the external extraction script) is
  gathered in a second record that every method takes as a parameter.
\<close>

subsection \<open>Data\<close>

text \<open>\<open>type EnvVars = Array<[string, string | undefined]>\<close>\<close>

type_synonym EnvVars = "(string \<times> string option) list"

datatype ConanEnv = buildEnv | runEnv

datatype error = ExtractionFailed string

text \<open>
  The collaborators. \<open>isUpdateDotEnv\<close> is the result of
  \<open>settingsPropertyManager.isUpdateDotEnv() === true\<close>; \<open>selectWorkspace\<close> is the path the
  promise of \<open>utils.workspace.selectWorkspace()\<close> resolves to, or \<open>None\<close> when it rejects;
  \<open>remoteName\<close> is \<open>vscode.env.remoteName\<close>; \<open>pathDirname\<close> and \<open>pathDelimiter\<close> are
  \<open>path.dirname\<close> and \<open>path.delimiter\<close>. \<open>execPrintEnv\<close> stands for
  \<open>JSON.parse(execSync(cmd, options))\<close>, as a function of the three values the command line is
  built from: it yields the message of the exception that ends the \<open>try\<close> block (a non-zero
  exit, the timeout, output that does not parse or is not an object), or the entries of the
  parsed object in their enumeration order. The values of the object are strings, as the
  return type of \<open>readEnvFromConan\<close> declares.
\<close>

record host =
  isUpdateDotEnv :: bool
  selectWorkspace :: "string option"
  remoteName :: "string option"
  pathDirname :: "string \<Rightarrow> string"
  pathDelimiter :: string
  execPrintEnv :: "ConanEnv \<Rightarrow> string \<Rightarrow> string \<Rightarrow> string + (string \<times> string) list"

text \<open>
  The mutable state. \<open>stored_backupEnv\<close> and \<open>stored_activeEnv\<close> are the values under the keys
  \<open>vsconan.backupEnv\<close> and \<open>vsconan.activeEnv\<close> of \<open>context.workspaceState\<close> (\<open>None\<close> is
  \<open>undefined\<close>, in the store and as the value of a pair); \<open>stateUpdates\<close> lists the keys
  passed to \<open>workspaceState.update\<close>, in call order; \<open>dotEnvFile\<close> is the content of the
  file \<open>.env\<close> in the selected workspace (\<open>None\<close> when the file does not exist);
  \<open>hostCommands\<close> lists the editor commands executed.
\<close>

record vsstate =
  processEnv :: "string \<rightharpoonup> string"
  environmentVariableCollection :: "string \<rightharpoonup> string"
  stored_backupEnv :: "EnvVars option"
  stored_activeEnv :: "(string \<times> ConanEnv \<times> (string \<times> string) list) option"
  stateUpdates :: "string list"
  dotEnvFile :: "string option"
  hostCommands :: "string list"

subsection \<open>JavaScript primitives used by the class\<close>

text \<open>A template literal renders an absent value as the text \<open>undefined\<close>.\<close>

fun template :: "string option \<Rightarrow> string" where
  "template None = ''undefined''"
| "template (Some v) = v"

text \<open>\<open>Array.prototype.join\<close>\<close>

fun join :: "string \<Rightarrow> string list \<Rightarrow> string" where
  "join sep [] = []"
| "join sep [x] = x"
| "join sep (x # y # ys) = x @ sep @ join sep (y # ys)"

text \<open>
  \<open>new Map(entries)\<close>: a later entry for a key replaces an earlier one. The result of the
  lookup is \<open>None\<close> when \<open>has(key)\<close> is false and \<open>Some (get(key))\<close> otherwise.
\<close>

definition jsMap :: "EnvVars \<Rightarrow> (string \<rightharpoonup> string option)" where
  "jsMap entries = map_of (rev entries)"

text \<open>
  \<open>obj[key] = value\<close> on an object given by its entries: the value of an existing property
  is replaced in place, a new property is added last.
\<close>

fun assignProperty :: "string \<Rightarrow> string \<Rightarrow> (string \<times> string) list \<Rightarrow> (string \<times> string) list" where
  "assignProperty key v [] = [(key, v)]"
| "assignProperty key v ((k, w) # rest) =
     (if k = key then (k, v) # rest else (k, w) # assignProperty key v rest)"

text \<open>An overlay of string values, seen at the type \<open>EnvVars\<close>.\<close>

definition asEnvVars :: "(string \<times> string) list \<Rightarrow> EnvVars" where
  "asEnvVars entries = map (\<lambda>(key, v). (key, Some v)) entries"

subsection \<open>Methods\<close>

text \<open>
  \<open>updateDotEnvFile\<close>: returns at once unless the setting is on; writes the file when the
  workspace selection resolves, and only shows a message when it rejects. The write happens
  in the continuation of the promise; the model performs it at the call.
\<close>

definition updateDotEnvFile :: "host \<Rightarrow> EnvVars \<Rightarrow> vsstate \<Rightarrow> vsstate" where
  "updateDotEnvFile h data s =
     (if \<not> isUpdateDotEnv h then s
      else case selectWorkspace h of
        None \<Rightarrow> s
      | Some ws \<Rightarrow>
          s\<lparr>dotEnvFile := Some (join [CHR 0x0A] (map (\<lambda>(key, v). key @ ''='' @ template v) data))\<rparr>)"

text \<open>
  The body of the \<open>forEach\<close> in \<open>updateVSCodeEnvironment\<close>. The test \<open>!value\<close> holds for
  \<open>undefined\<close> and for the empty string.
\<close>

fun applyVar :: "string \<times> string option \<Rightarrow> vsstate \<Rightarrow> vsstate" where
  "applyVar (key, None) s =
     s\<lparr>processEnv := (processEnv s)(key := None),
       environmentVariableCollection := (environmentVariableCollection s)(key := None)\<rparr>"
| "applyVar (key, Some v) s =
     (if v = [] then
        s\<lparr>processEnv := (processEnv s)(key := None),
          environmentVariableCollection := (environmentVariableCollection s)(key := None)\<rparr>
      else
        s\<lparr>processEnv := (processEnv s)(key \<mapsto> v),
          environmentVariableCollection := (environmentVariableCollection s)(key \<mapsto> v)\<rparr>)"

definition updateVSCodeEnvironment :: "host \<Rightarrow> EnvVars \<Rightarrow> vsstate \<Rightarrow> vsstate" where
  "updateVSCodeEnvironment h data s = updateDotEnvFile h data (fold applyVar data s)"

definition restoreEnvironment :: "host \<Rightarrow> vsstate \<Rightarrow> vsstate" where
  "restoreEnvironment h s =
     (let s1 = (case stored_backupEnv s of
                  None \<Rightarrow> s
                | Some backupEnv \<Rightarrow> updateVSCodeEnvironment h backupEnv s);
          s2 = updateDotEnvFile h [] s1
      in s2\<lparr>stored_activeEnv := None,
            stateUpdates := stateUpdates s2 @ [''vsconan.activeEnv'']\<rparr>)"

definition updateBackupEnvironment :: "EnvVars \<Rightarrow> vsstate \<Rightarrow> vsstate" where
  "updateBackupEnvironment newenv s =
     (let backupEnv = jsMap (case stored_backupEnv s of None \<Rightarrow> [] | Some b \<Rightarrow> b);
          newBackupEnv = map (\<lambda>(key, _).
              case backupEnv key of
                Some v \<Rightarrow> (key, v)
              | None \<Rightarrow> (key, processEnv s key)) newenv
      in s\<lparr>stored_backupEnv := Some newBackupEnv,
           stateUpdates := stateUpdates s @ [''vsconan.backupEnv'']\<rparr>)"

text \<open>
  \<open>readEnvFromConan\<close> shows the message of a caught exception and throws it again; the
  model returns it. \<open>activateEnvironment\<close> ends by asking the editor to restart the extension
  host or to reload the window. Writes to the console and to the output channel and the
  messages shown to the user are left out of the model.
\<close>

definition readEnvFromConan ::
  "host \<Rightarrow> ConanEnv \<Rightarrow> string \<Rightarrow> string \<Rightarrow> error + (string \<times> string) list" where
  "readEnvFromConan h conanEnv pythonInterpreter args =
     (case execPrintEnv h conanEnv pythonInterpreter args of
        Inl msg \<Rightarrow> Inl (ExtractionFailed msg)
      | Inr parsed \<Rightarrow>
          Inr (assignProperty ''PATH''
                 (pathDirname h pythonInterpreter @ pathDelimiter h @ template (map_of parsed ''PATH''))
                 parsed))"

definition activateEnvironment ::
  "host \<Rightarrow> ConanEnv \<Rightarrow> string \<Rightarrow> string \<Rightarrow> string \<Rightarrow> vsstate \<Rightarrow> (error + unit) \<times> vsstate" where
  "activateEnvironment h conanEnv configName pythonInterpreter args s =
     (let s1 = restoreEnvironment h s in
      case readEnvFromConan h conanEnv pythonInterpreter args of
        Inl err \<Rightarrow> (Inl err, s1)
      | Inr newenv \<Rightarrow>
          (let s2 = updateBackupEnvironment (asEnvVars newenv) s1;
               s3 = updateVSCodeEnvironment h (asEnvVars newenv) s2;
               s4 = s3\<lparr>stored_activeEnv := Some (configName, conanEnv, newenv),
                       stateUpdates := stateUpdates s3 @ [''vsconan.activeEnv'']\<rparr>;
               s5 = s4\<lparr>hostCommands := hostCommands s4 @
                         [if remoteName h = None then ''workbench.action.restartExtensionHost''
                          else ''workbench.action.reloadWindow'']\<rparr>
           in (Inr (), s5)))"

definition activeEnv :: "vsstate \<Rightarrow> (string \<times> ConanEnv \<times> (string \<times> string) list) option" where
  "activeEnv s = stored_activeEnv s"

definition constructor :: "host \<Rightarrow> vsstate \<Rightarrow> vsstate" where
  "constructor h s =
     (case activeEnv s of
        None \<Rightarrow> s
      | Some (configName, conanEnv, overlay) \<Rightarrow> updateVSCodeEnvironment h (asEnvVars overlay) s)"

subsection \<open>The earlier copy of the class\<close>

text \<open>
  The copy of the class in \<open>src/extension/manager/workspaceEnvironment.ts\<close> has no
  re-application in its constructor and no \<open>PATH\<close> handling, and its
  \<open>updateBackupEnvironment\<close> differs in one branch: for a name the prior backup tracks it
  pushes \<open>[key, value]\<close>, the value of the new environment, where the later copy pushes
  \<open>[key, backupEnv.get(key)]\<close>. Its \<open>restoreEnvironment\<close>, \<open>updateVSCodeEnvironment\<close> and
  \<open>updateDotEnvFile\<close> are those above.
\<close>

definition updateBackupEnvironment_earlier :: "EnvVars \<Rightarrow> vsstate \<Rightarrow> vsstate" where
  "updateBackupEnvironment_earlier newenv s =
     (let backupEnv = jsMap (case stored_backupEnv s of None \<Rightarrow> [] | Some b \<Rightarrow> b);
          newBackupEnv = map (\<lambda>(key, v).
              case backupEnv key of
                Some _ \<Rightarrow> (key, v)
              | None \<Rightarrow> (key, processEnv s key)) newenv
      in s\<lparr>stored_backupEnv := Some newBackupEnv,
           stateUpdates := stateUpdates s @ [''vsconan.backupEnv'']\<rparr>)"

subsection \<open>Notions used in the statements\<close>

text \<open>
  The value a variable has once a pair with value \<open>v\<close> has been applied to it: unset for an
  absent and for an empty value.
\<close>

definition effective :: "string option \<Rightarrow> string option" where
  "effective v = (case v of None \<Rightarrow> None | Some x \<Rightarrow> if x = [] then None else Some x)"

text \<open>The entries of the persisted backup, none when the key is not set.\<close>

definition priorSnapshot :: "vsstate \<Rightarrow> EnvVars" where
  "priorSnapshot s = (case stored_backupEnv s of None \<Rightarrow> [] | Some b \<Rightarrow> b)"

text \<open>
  The persisted backup is in force: there is none, or every pair of it already describes the
  process environment, so that applying it again changes no variable.
\<close>

definition snapshotSettled :: "vsstate \<Rightarrow> bool" where
  "snapshotSettled s =
     (case stored_backupEnv s of
        None \<Rightarrow> True
      | Some b \<Rightarrow> list_all (\<lambda>(key, v). processEnv s key = effective v) b)"

subsection \<open>A concrete host and concrete states\<close>

text \<open>
  The script prints \<open>CC\<close> and \<open>PATH\<close> for the arguments \<open>-pr a\<close>, only \<open>CXX\<close> for
  \<open>-pr b\<close>, an empty object for \<open>-pr none\<close>, and fails for anything else.
\<close>

definition exampleHost :: host where
  "exampleHost =
     \<lparr>isUpdateDotEnv = True,
      selectWorkspace = Some ''/home/user/ws'',
      remoteName = None,
      pathDirname = (\<lambda>p. ''/usr/bin''),
      pathDelimiter = '':'',
      execPrintEnv = (\<lambda>conanEnv py args.
         if args = ''-pr a'' then Inr [(''CC'', ''gcc''), (''PATH'', ''/opt/a/bin'')]
         else if args = ''-pr b'' then Inr [(''CXX'', ''g++'')]
         else if args = ''-pr none'' then Inr []
         else Inl ''Command failed'')\<rparr>"

text \<open>Nothing persisted; \<open>CC\<close> is set to \<open>clang\<close>, and a \<open>.env\<close> file exists.\<close>

definition freshState :: vsstate where
  "freshState =
     \<lparr>processEnv = [''CC'' \<mapsto> ''clang''],
      environmentVariableCollection = Map.empty,
      stored_backupEnv = None,
      stored_activeEnv = None,
      stateUpdates = [],
      dotEnvFile = Some ''FOO=1'',
      hostCommands = []\<rparr>"

text \<open>The same, with \<open>CC\<close> set to the empty string.\<close>

definition emptyValueState :: vsstate where
  "emptyValueState = freshState\<lparr>processEnv := [''CC'' \<mapsto> []]\<rparr>"

text \<open>
  The same as \<open>freshState\<close>, with a backup left in the store by an earlier session in which
  \<open>CC\<close> was \<open>cc\<close>.
\<close>

definition staleBackupState :: vsstate where
  "staleBackupState = freshState\<lparr>stored_backupEnv := Some [(''CC'', Some ''cc'')]\<rparr>"

text \<open>The state after one successful activation from \<open>freshState\<close>.\<close>

definition activatedState :: vsstate where
  "activatedState =
     snd (activateEnvironment exampleHost buildEnv ''gcc'' ''/usr/bin/python3'' ''-pr a'' freshState)"

section \<open>Command builder\<close>

text \<open>
  The source of the command builder is not among the files at hand: only its callers in
  \<open>VSConanWorkspaceManager\<close> (\<open>CommandBuilder.buildCommandCreate\<close> to
  \<open>buildCommandPackageExport\<close>, whose result is compared with \<open>undefined\<close>) and the tests
  of \<open>buildCommandPackageExport\<close> are. The definitions of this section follow the
  specification; the tests fix the defaults of a configuration and give expected outputs.
\<close>

datatype SubcommandKind = Create | Install | Build | Source | Package | PackageExport

datatype FolderField = InstallFolder | BuildFolder | PackageFolder | SourceFolder

text \<open>
  Modelled from the spec: the configuration of a subcommand, missing with the builder. Its
  fields are optional strings; \<open>None\<close> and the empty string both mean that the field is not set.
\<close>

record SubcommandConfig =
  conanRecipe :: "string option"
  installFolder :: "string option"
  buildFolder :: "string option"
  packageFolder :: "string option"
  sourceFolder :: "string option"

fun fieldValue :: "SubcommandConfig \<Rightarrow> FolderField \<Rightarrow> string option" where
  "fieldValue cfg InstallFolder = installFolder cfg"
| "fieldValue cfg BuildFolder = buildFolder cfg"
| "fieldValue cfg PackageFolder = packageFolder cfg"
| "fieldValue cfg SourceFolder = sourceFolder cfg"

text \<open>
  Modelled from the spec: the order of the optional flags of a subcommand, missing with the
  builder. The specification gives it for package-export only, so the builder below takes the
  table of all kinds as a parameter: the subcommand word and the flags with their fields, in
  order. This is the entry for package-export.
\<close>

definition packageExportLayout :: "string \<times> (string \<times> FolderField) list" where
  "packageExportLayout =
     (''export-pkg'',
      [(''-if'', InstallFolder), (''-bf'', BuildFolder), (''-pf'', PackageFolder), (''-sf'', SourceFolder)])"

text \<open>
  Modelled from the spec: the loop over the optional fields of the missing builder. A field
  that is set adds a space, its flag, a space and its resolved path to the command; a field
  that is not set adds nothing.
\<close>

fun appendFlags ::
  "(string \<Rightarrow> string \<Rightarrow> string) \<Rightarrow> string \<Rightarrow> SubcommandConfig \<Rightarrow> (string \<times> FolderField) list \<Rightarrow> string \<Rightarrow> string" where
  "appendFlags resolve ws cfg [] cmd = cmd"
| "appendFlags resolve ws cfg ((flag, field) # rest) cmd =
     (case fieldValue cfg field of
        None \<Rightarrow> appendFlags resolve ws cfg rest cmd
      | Some v \<Rightarrow>
          if v = [] then appendFlags resolve ws cfg rest cmd
          else appendFlags resolve ws cfg rest (cmd @ '' '' @ flag @ '' '' @ resolve ws v))"

text \<open>
  Modelled from the spec: the missing builder, \<open>build(kind, workspaceRoot, config)\<close>. It is
  absent when the manifest field is missing or empty; otherwise the subcommand word is followed
  by the manifest path resolved under the workspace root and by the flags of the fields that
  are set. The path resolver (a join under the workspace root followed by the platform's
  normalisation) is a parameter. The specification names further options of some kinds
  (arguments, profile) without saying how they are rendered; they are not part of the model.
\<close>

definition build ::
  "(SubcommandKind \<Rightarrow> string \<times> (string \<times> FolderField) list) \<Rightarrow> (string \<Rightarrow> string \<Rightarrow> string) \<Rightarrow>
   SubcommandKind \<Rightarrow> string \<Rightarrow> SubcommandConfig \<Rightarrow> string option" where
  "build layout resolve kind ws cfg =
     (case conanRecipe cfg of
        None \<Rightarrow> None
      | Some recipe \<Rightarrow>
          if recipe = [] then None
          else Some (appendFlags resolve ws cfg (snd (layout kind))
                       (fst (layout kind) @ '' '' @ resolve ws recipe)))"

text \<open>
  The tokens an optional field contributes to the command line: its flag and its resolved
  path when it is set, nothing when it is not.
\<close>

fun flagTokens ::
  "(string \<Rightarrow> string \<Rightarrow> string) \<Rightarrow> string \<Rightarrow> SubcommandConfig \<Rightarrow> string \<times> FolderField \<Rightarrow> string list" where
  "flagTokens resolve ws cfg (flag, field) =
     (case fieldValue cfg field of
        None \<Rightarrow> []
      | Some v \<Rightarrow> if v = [] then [] else [flag, resolve ws v])"

text \<open>
  \<open>build\<close> gives the value the builder returns. The builder itself runs on a configuration
  that \<open>VSConanWorkspaceManager.executeConanCommand\<close> reads with \<open>JSON.parse\<close> and does not
  validate, so any field of it may be missing, and the path functions of the platform raise a
  \<open>TypeError\<close> on an argument that is not a string. The three definitions that follow make
  this exception a value, so that the absence of exceptions is a statement about the builder.
\<close>

datatype jsException = TypeError

text \<open>
  Modelled from the spec: the path resolver applied to a field as the configuration holds it,
  missing with the builder. It raises on a missing value, as \<open>path.join\<close> does on
  \<open>undefined\<close>, and resolves any string.
\<close>

definition resolveField ::
  "(string \<Rightarrow> string \<Rightarrow> string) \<Rightarrow> string \<Rightarrow> string option \<Rightarrow> jsException + string" where
  "resolveField resolve ws field =
     (case field of None \<Rightarrow> Inl TypeError | Some v \<Rightarrow> Inr (resolve ws v))"

text \<open>
  Modelled from the spec: the loop over the optional fields of the missing builder, with the
  exception of the resolver passed on. A field is tested for being missing or empty before it
  is resolved.
\<close>

fun pushFlags ::
  "(string \<Rightarrow> string \<Rightarrow> string) \<Rightarrow> string \<Rightarrow> SubcommandConfig \<Rightarrow> (string \<times> FolderField) list \<Rightarrow> string \<Rightarrow>
   jsException + string" where
  "pushFlags resolve ws cfg [] cmd = Inr cmd"
| "pushFlags resolve ws cfg ((flag, field) # rest) cmd =
     (if fieldValue cfg field = None \<or> fieldValue cfg field = Some [] then
        pushFlags resolve ws cfg rest cmd
      else
        case resolveField resolve ws (fieldValue cfg field) of
          Inl e \<Rightarrow> Inl e
        | Inr p \<Rightarrow> pushFlags resolve ws cfg rest (cmd @ '' '' @ flag @ '' '' @ p))"

text \<open>
  Modelled from the spec: the missing builder with the exception of the resolver passed on.
  The manifest field is tested for being missing or empty before it is resolved; the result is
  an exception, absent, or a command line.
\<close>

definition buildCommand ::
  "(SubcommandKind \<Rightarrow> string \<times> (string \<times> FolderField) list) \<Rightarrow> (string \<Rightarrow> string \<Rightarrow> string) \<Rightarrow>
   SubcommandKind \<Rightarrow> string \<Rightarrow> SubcommandConfig \<Rightarrow> jsException + string option" where
  "buildCommand layout resolve kind ws cfg =
     (if conanRecipe cfg = None \<or> conanRecipe cfg = Some [] then Inr None
      else
        case resolveField resolve ws (conanRecipe cfg) of
          Inl e \<Rightarrow> Inl e
        | Inr manifest \<Rightarrow>
            (case pushFlags resolve ws cfg (snd (layout kind))
                    (fst (layout kind) @ '' '' @ manifest) of
               Inl e \<Rightarrow> Inl e
             | Inr cmd \<Rightarrow> Inr (Some cmd)))"

text \<open>
  The configuration the tests start from (\<open>new ConfigCommandPackageExport()\<close>), a resolver
  for workspace roots and fields that are already normal on a POSIX host, and a table that
  has the package-export entry for every kind.
\<close>

definition defaultConfig :: SubcommandConfig where
  "defaultConfig =
     \<lparr>conanRecipe = Some ''conanfile.py'',
      installFolder = Some ''install'',
      buildFolder = Some ''build'',
      packageFolder = Some ''package'',
      sourceFolder = Some ''source''\<rparr>"

definition posixResolve :: "string \<Rightarrow> string \<Rightarrow> string" where
  "posixResolve ws p = ws @ ''/'' @ p"

definition exampleLayout :: "SubcommandKind \<Rightarrow> string \<times> (string \<times> FolderField) list" where
  "exampleLayout kind = packageExportLayout"

section \<open>Properties of the overlay manager\<close>

subsection \<open>What each method leaves alone\<close>

lemma updateDotEnvFile_frame:
  "processEnv (updateDotEnvFile h d s) = processEnv s"
  "environmentVariableCollection (updateDotEnvFile h d s) = environmentVariableCollection s"
  "stored_backupEnv (updateDotEnvFile h d s) = stored_backupEnv s"
  "stored_activeEnv (updateDotEnvFile h d s) = stored_activeEnv s"
  "stateUpdates (updateDotEnvFile h d s) = stateUpdates s"
  "hostCommands (updateDotEnvFile h d s) = hostCommands s"
  by (simp_all add: updateDotEnvFile_def split: option.splits)

lemma updateDotEnvFile_file:
  "dotEnvFile (updateDotEnvFile h d s) =
     (if isUpdateDotEnv h \<and> selectWorkspace h \<noteq> None
      then Some (join [CHR 0x0A] (map (\<lambda>(key, v). key @ ''='' @ template v) d))
      else dotEnvFile s)"
  by (auto simp: updateDotEnvFile_def split: option.splits)

lemma applyVar_frame:
  "stored_backupEnv (applyVar p s) = stored_backupEnv s"
  "stored_activeEnv (applyVar p s) = stored_activeEnv s"
  "stateUpdates (applyVar p s) = stateUpdates s"
  "dotEnvFile (applyVar p s) = dotEnvFile s"
  "hostCommands (applyVar p s) = hostCommands s"
  by (cases p; cases "snd p"; simp)+

lemma applyVar_processEnv:
  "processEnv (applyVar (k, v) s) = (processEnv s)(k := effective v)"
  by (cases v) (simp_all add: effective_def)

lemma applyVar_collection:
  "environmentVariableCollection (applyVar (k, v) s) =
     (environmentVariableCollection s)(k := effective v)"
  by (cases v) (simp_all add: effective_def)

lemma fold_applyVar_frame:
  "stored_backupEnv (fold applyVar data s) = stored_backupEnv s"
  "stored_activeEnv (fold applyVar data s) = stored_activeEnv s"
  "stateUpdates (fold applyVar data s) = stateUpdates s"
  "dotEnvFile (fold applyVar data s) = dotEnvFile s"
  "hostCommands (fold applyVar data s) = hostCommands s"
  by (induction data arbitrary: s; simp add: applyVar_frame)+

text \<open>Applying a list of pairs: for each name the last pair wins.\<close>

lemma fold_applyVar_processEnv:
  "processEnv (fold applyVar data s) k =
     (case jsMap data k of None \<Rightarrow> processEnv s k | Some v \<Rightarrow> effective v)"
proof (induction data rule: rev_induct)
  case Nil
  then show ?case by (simp add: jsMap_def)
next
  case (snoc p data)
  obtain k' v where p: "p = (k', v)" by (cases p)
  show ?case using snoc by (simp add: p jsMap_def applyVar_processEnv)
qed

lemma fold_applyVar_collection:
  "environmentVariableCollection (fold applyVar data s) k =
     (case jsMap data k of None \<Rightarrow> environmentVariableCollection s k | Some v \<Rightarrow> effective v)"
proof (induction data rule: rev_induct)
  case Nil
  then show ?case by (simp add: jsMap_def)
next
  case (snoc p data)
  obtain k' v where p: "p = (k', v)" by (cases p)
  show ?case using snoc by (simp add: p jsMap_def applyVar_collection)
qed

lemma updateVSCodeEnvironment_processEnv:
  "processEnv (updateVSCodeEnvironment h data s) k =
     (case jsMap data k of None \<Rightarrow> processEnv s k | Some v \<Rightarrow> effective v)"
  by (simp add: updateVSCodeEnvironment_def updateDotEnvFile_frame fold_applyVar_processEnv)

lemma updateVSCodeEnvironment_collection:
  "environmentVariableCollection (updateVSCodeEnvironment h data s) k =
     (case jsMap data k of None \<Rightarrow> environmentVariableCollection s k | Some v \<Rightarrow> effective v)"
  by (simp add: updateVSCodeEnvironment_def updateDotEnvFile_frame fold_applyVar_collection)

lemma updateVSCodeEnvironment_frame:
  "stored_backupEnv (updateVSCodeEnvironment h d s) = stored_backupEnv s"
  "stored_activeEnv (updateVSCodeEnvironment h d s) = stored_activeEnv s"
  "stateUpdates (updateVSCodeEnvironment h d s) = stateUpdates s"
  "hostCommands (updateVSCodeEnvironment h d s) = hostCommands s"
  by (simp_all add: updateVSCodeEnvironment_def updateDotEnvFile_frame fold_applyVar_frame)

lemma updateVSCodeEnvironment_file:
  "dotEnvFile (updateVSCodeEnvironment h d s) =
     (if isUpdateDotEnv h \<and> selectWorkspace h \<noteq> None
      then Some (join [CHR 0x0A] (map (\<lambda>(key, v). key @ ''='' @ template v) d))
      else dotEnvFile s)"
  by (auto simp: updateVSCodeEnvironment_def updateDotEnvFile_file fold_applyVar_frame)


subsection \<open>Lookups in the backup\<close>






subsection \<open>Restoration and activation, variable by variable\<close>

lemma restoreEnvironment_processEnv:
  "processEnv (restoreEnvironment h s) k =
     (case stored_backupEnv s of
        None \<Rightarrow> processEnv s k
      | Some b \<Rightarrow> (case jsMap b k of None \<Rightarrow> processEnv s k | Some v \<Rightarrow> effective v))"
  by (simp add: restoreEnvironment_def Let_def updateDotEnvFile_frame
      updateVSCodeEnvironment_processEnv split: option.splits)

lemma restoreEnvironment_collection:
  "environmentVariableCollection (restoreEnvironment h s) k =
     (case stored_backupEnv s of
        None \<Rightarrow> environmentVariableCollection s k
      | Some b \<Rightarrow>
          (case jsMap b k of None \<Rightarrow> environmentVariableCollection s k | Some v \<Rightarrow> effective v))"
  by (simp add: restoreEnvironment_def Let_def updateDotEnvFile_frame
      updateVSCodeEnvironment_collection split: option.splits)

lemma restoreEnvironment_store:
  "stored_backupEnv (restoreEnvironment h s) = stored_backupEnv s"
  "stored_activeEnv (restoreEnvironment h s) = None"
  "stateUpdates (restoreEnvironment h s) = stateUpdates s @ [''vsconan.activeEnv'']"
  "hostCommands (restoreEnvironment h s) = hostCommands s"
  by (simp_all add: restoreEnvironment_def Let_def updateDotEnvFile_frame
      updateVSCodeEnvironment_frame split: option.splits)

lemma restoreEnvironment_file:
  "dotEnvFile (restoreEnvironment h s) =
     (if isUpdateDotEnv h \<and> selectWorkspace h \<noteq> None then Some [] else dotEnvFile s)"
  by (cases "stored_backupEnv s")
    (auto simp: restoreEnvironment_def Let_def updateDotEnvFile_file updateVSCodeEnvironment_file)

lemma restoreEnvironment_untracked:
  "jsMap (priorSnapshot s) k = None \<Longrightarrow> processEnv (restoreEnvironment h s) k = processEnv s k"
  by (simp add: restoreEnvironment_processEnv priorSnapshot_def split: option.splits)


lemma updateBackupEnvironment_backup:
  "stored_backupEnv (updateBackupEnvironment newenv s) =
     Some (map (\<lambda>key. (key, case jsMap (priorSnapshot s) key of
                               Some v \<Rightarrow> v
                             | None \<Rightarrow> processEnv s key))
            (map fst newenv))"
  by (auto simp: updateBackupEnvironment_def Let_def priorSnapshot_def split: option.splits)

lemma activateEnvironment_backup:
  assumes "readEnvFromConan h c py a = Inr newenv"
  shows "stored_backupEnv (snd (activateEnvironment h c n py a s)) =
     Some (map (\<lambda>key. (key, case jsMap (priorSnapshot s) key of
                               Some v \<Rightarrow> v
                             | None \<Rightarrow> processEnv (restoreEnvironment h s) key))
            (map fst newenv))"
  using assms
  by (simp add: activateEnvironment_def Let_def updateVSCodeEnvironment_frame
      updateBackupEnvironment_backup priorSnapshot_def restoreEnvironment_store asEnvVars_def
      comp_def case_prod_unfold)



subsection \<open>The concrete host\<close>

lemma exampleHost_read_a:
  "readEnvFromConan exampleHost buildEnv ''/usr/bin/python3'' ''-pr a'' =
     Inr [(''CC'', ''gcc''), (''PATH'', ''/usr/bin:/opt/a/bin'')]"
  by (simp add: readEnvFromConan_def exampleHost_def)


lemma exampleHost_exec_fail:
  "execPrintEnv exampleHost buildEnv ''/usr/bin/python3'' ''--bad'' = Inl ''Command failed''"
  by (simp add: exampleHost_def)


lemmas run_defs =
  activateEnvironment_def restoreEnvironment_def updateVSCodeEnvironment_def
  updateDotEnvFile_def updateBackupEnvironment_def readEnvFromConan_def asEnvVars_def
  jsMap_def Let_def exampleHost_def freshState_def emptyValueState_def staleBackupState_def
  activatedState_def

lemma activatedState_fields:
  "processEnv activatedState = [''CC'' \<mapsto> ''gcc'', ''PATH'' \<mapsto> ''/usr/bin:/opt/a/bin'']"
  "stored_backupEnv activatedState = Some [(''CC'', Some ''clang''), (''PATH'', None)]"
  "stored_activeEnv activatedState =
     Some (''gcc'', buildEnv, [(''CC'', ''gcc''), (''PATH'', ''/usr/bin:/opt/a/bin'')])"
  "stateUpdates activatedState = [''vsconan.activeEnv'', ''vsconan.backupEnv'', ''vsconan.activeEnv'']"
  "hostCommands activatedState = [''workbench.action.restartExtensionHost'']"
  by (simp_all add: run_defs)

section \<open>The claims about the overlay manager\<close>




text \<open>
  Why the backup has to be in force at the start: the marker is absent, but the store holds a
  backup that says \<open>cc\<close> while \<open>CC\<close> is \<open>clang\<close>. The first activation applies that backup
  and keeps its value for \<open>CC\<close>, and the chain ends at \<open>cc\<close>.
\<close>

lemma stale_backup_is_restored:
  "\<not> snapshotSettled staleBackupState"
  "stored_activeEnv staleBackupState = None"
  "processEnv staleBackupState ''CC'' = Some ''clang''"
  "processEnv (restoreEnvironment exampleHost
      (snd (activateEnvironment exampleHost runEnv ''g++'' ''/usr/bin/python3'' ''-pr b''
         (snd (activateEnvironment exampleHost buildEnv ''gcc'' ''/usr/bin/python3'' ''-pr a''
            staleBackupState))))) ''CC'' = Some ''cc''"
  by (simp_all add: run_defs snapshotSettled_def effective_def)

text \<open>
  C2. When an activation succeeds, the backup it persists has one pair for each pair of the
  new overlay, under the same name and in the same order; its value is the value the prior
  backup has for the name when the prior backup tracks it, and otherwise the value of the
  name in the process environment. (The restoration that opens the activation leaves a name
  the prior backup does not track alone, so that value is the same at the call of
  \<open>activateEnvironment\<close> and when the backup is computed.)
\<close>

theorem snapshot_after_activate:
  assumes "readEnvFromConan h c py a = Inr newenv"
  shows "stored_backupEnv (snd (activateEnvironment h c n py a s)) =
     Some (map (\<lambda>key. (key, case jsMap (priorSnapshot s) key of
                               Some v \<Rightarrow> v
                             | None \<Rightarrow> processEnv s key))
            (map fst newenv))"
proof -
  have "(case jsMap (priorSnapshot s) key of
           Some v \<Rightarrow> v
         | None \<Rightarrow> processEnv (restoreEnvironment h s) key) =
        (case jsMap (priorSnapshot s) key of Some v \<Rightarrow> v | None \<Rightarrow> processEnv s key)" for key
    by (cases "jsMap (priorSnapshot s) key") (simp_all add: restoreEnvironment_untracked)
  then show ?thesis
    by (simp only: activateEnvironment_backup [OF assms])
qed

text \<open>
  A run of the theorem from a state with a backup: \<open>CC\<close> and \<open>PATH\<close> are tracked, and the new
  backup keeps their tracked values \<open>clang\<close> and absent, not the values \<open>gcc\<close> and
  \<open>/usr/bin:/opt/a/bin\<close> the process environment has.
\<close>

theorem snapshot_after_activate_witness:
  "readEnvFromConan exampleHost buildEnv ''/usr/bin/python3'' ''-pr a'' =
     Inr [(''CC'', ''gcc''), (''PATH'', ''/usr/bin:/opt/a/bin'')] \<and>
   processEnv activatedState ''CC'' = Some ''gcc'' \<and>
   stored_backupEnv
     (snd (activateEnvironment exampleHost buildEnv ''again'' ''/usr/bin/python3'' ''-pr a''
        activatedState)) =
     Some [(''CC'', Some ''clang''), (''PATH'', None)]"
  using snapshot_after_activate [OF exampleHost_read_a, of "''again''" activatedState]
    exampleHost_read_a
  by (simp add: priorSnapshot_def activatedState_fields jsMap_def)

text \<open>
  C5 (as amended). When the extraction fails, \<open>activateEnvironment\<close> passes the error on, and
  the state it leaves is the state the restoration at its start produces: the prior backup
  has been applied, the mirror file emptied and the marker cleared. Nothing of a new overlay
  is applied, the persisted backup is not written, and no host command is executed.
\<close>

theorem failed_extraction_only_restores:
  assumes "execPrintEnv h c py a = Inl msg"
  shows "activateEnvironment h c n py a s = (Inl (ExtractionFailed msg), restoreEnvironment h s) \<and>
         stored_backupEnv (snd (activateEnvironment h c n py a s)) = stored_backupEnv s \<and>
         stateUpdates (snd (activateEnvironment h c n py a s)) = stateUpdates s @ [''vsconan.activeEnv''] \<and>
         hostCommands (snd (activateEnvironment h c n py a s)) = hostCommands s"
  using assms
  by (simp add: activateEnvironment_def readEnvFromConan_def Let_def restoreEnvironment_store)

text \<open>A run of the theorem: a failing activation in a state with an active overlay.\<close>

theorem failed_extraction_only_restores_witness:
  "execPrintEnv exampleHost buildEnv ''/usr/bin/python3'' ''--bad'' = Inl ''Command failed'' \<and>
   activateEnvironment exampleHost buildEnv ''x'' ''/usr/bin/python3'' ''--bad'' activatedState =
     (Inl (ExtractionFailed ''Command failed''), restoreEnvironment exampleHost activatedState) \<and>
   stored_backupEnv
     (snd (activateEnvironment exampleHost buildEnv ''x'' ''/usr/bin/python3'' ''--bad'' activatedState)) =
     Some [(''CC'', Some ''clang''), (''PATH'', None)]"
  using failed_extraction_only_restores [OF exampleHost_exec_fail, of "''x''" activatedState]
    exampleHost_exec_fail
  by (simp add: activatedState_fields restoreEnvironment_store)

text \<open>
  The claim as it is written fails in a state with an active overlay: the failing activation
  has set \<open>CC\<close> back from \<open>gcc\<close> to \<open>clang\<close>, cleared the marker and emptied the mirror file
  before the extraction was attempted.
\<close>

theorem failed_extraction_mutates:
  "fst (activateEnvironment exampleHost buildEnv ''x'' ''/usr/bin/python3'' ''--bad'' activatedState) =
     Inl (ExtractionFailed ''Command failed'') \<and>
   processEnv activatedState ''CC'' = Some ''gcc'' \<and>
   processEnv
     (snd (activateEnvironment exampleHost buildEnv ''x'' ''/usr/bin/python3'' ''--bad'' activatedState))
     ''CC'' = Some ''clang'' \<and>
   stored_activeEnv activatedState =
     Some (''gcc'', buildEnv, [(''CC'', ''gcc''), (''PATH'', ''/usr/bin:/opt/a/bin'')]) \<and>
   stored_activeEnv
     (snd (activateEnvironment exampleHost buildEnv ''x'' ''/usr/bin/python3'' ''--bad'' activatedState)) =
     None \<and>
   dotEnvFile activatedState = Some (''CC=gcc'' @ [CHR 0x0A] @ ''PATH=/usr/bin:/opt/a/bin'') \<and>
   dotEnvFile
     (snd (activateEnvironment exampleHost buildEnv ''x'' ''/usr/bin/python3'' ''--bad'' activatedState)) =
     Some []"
  by (simp add: run_defs)

text \<open>
  C6 (as amended). A restoration in a state with no persisted backup and no marker changes
  no variable of the process environment or of the environment variable collection, and
  leaves both persisted records absent. It still calls the update of the store that clears the
  marker, and where the mirror setting is on and a workspace is selected it writes the mirror
  file, leaving it empty.
\<close>

theorem restore_when_inactive:
  assumes "stored_backupEnv s = None" and "stored_activeEnv s = None"
  shows "processEnv (restoreEnvironment h s) = processEnv s \<and>
         environmentVariableCollection (restoreEnvironment h s) = environmentVariableCollection s \<and>
         stored_backupEnv (restoreEnvironment h s) = None \<and>
         stored_activeEnv (restoreEnvironment h s) = None \<and>
         hostCommands (restoreEnvironment h s) = hostCommands s \<and>
         stateUpdates (restoreEnvironment h s) = stateUpdates s @ [''vsconan.activeEnv''] \<and>
         dotEnvFile (restoreEnvironment h s) =
           (if isUpdateDotEnv h \<and> selectWorkspace h \<noteq> None then Some [] else dotEnvFile s)"
proof -
  have "processEnv (restoreEnvironment h s) k = processEnv s k" for k
    using assms(1) by (simp add: restoreEnvironment_processEnv)
  moreover have "environmentVariableCollection (restoreEnvironment h s) k =
      environmentVariableCollection s k" for k
    using assms(1) by (simp add: restoreEnvironment_collection)
  ultimately show ?thesis
    using assms by (simp add: restoreEnvironment_store restoreEnvironment_file fun_eq_iff)
qed

text \<open>A run of the theorem, with the mirror setting off.\<close>

theorem restore_when_inactive_witness:
  "stored_backupEnv freshState = None \<and> stored_activeEnv freshState = None \<and>
   processEnv (restoreEnvironment (exampleHost\<lparr>isUpdateDotEnv := False\<rparr>) freshState) =
     [''CC'' \<mapsto> ''clang''] \<and>
   dotEnvFile (restoreEnvironment (exampleHost\<lparr>isUpdateDotEnv := False\<rparr>) freshState) =
     Some ''FOO=1''"
proof -
  have h1: "stored_backupEnv freshState = None" by (simp add: freshState_def)
  have h2: "stored_activeEnv freshState = None" by (simp add: freshState_def)
  from restore_when_inactive [OF h1 h2, of "exampleHost\<lparr>isUpdateDotEnv := False\<rparr>"]
  show ?thesis using h1 h2 by (simp add: freshState_def)
qed

text \<open>
  The claim as it is written fails with the mirror setting on: the restoration writes the
  mirror file, whose content \<open>FOO=1\<close> is lost, and it calls the update of the store.
\<close>

theorem restore_when_inactive_writes:
  "stored_backupEnv freshState = None \<and> stored_activeEnv freshState = None \<and>
   dotEnvFile freshState = Some ''FOO=1'' \<and>
   dotEnvFile (restoreEnvironment exampleHost freshState) = Some [] \<and>
   stateUpdates freshState = [] \<and>
   stateUpdates (restoreEnvironment exampleHost freshState) = [''vsconan.activeEnv'']"
  by (simp add: run_defs)

text \<open>
  C7 (as amended). A restoration applies the persisted backup to the process environment (for
  each name the last pair of the backup decides: the variable gets the pair's value, or is
  unset when that value is absent or empty) and clears the marker. The persisted backup itself
  is not cleared: it stays in the store as it was.
\<close>

theorem restore_keeps_snapshot:
  assumes "stored_backupEnv s = Some b"
  shows "processEnv (restoreEnvironment h s) k =
           (case jsMap b k of None \<Rightarrow> processEnv s k | Some v \<Rightarrow> effective v) \<and>
         stored_activeEnv (restoreEnvironment h s) = None \<and>
         stored_backupEnv (restoreEnvironment h s) = Some b"
  using assms by (simp add: restoreEnvironment_processEnv restoreEnvironment_store)

text \<open>A run of the theorem from the state with an active overlay.\<close>

theorem restore_keeps_snapshot_witness:
  "stored_backupEnv activatedState = Some [(''CC'', Some ''clang''), (''PATH'', None)] \<and>
   processEnv (restoreEnvironment exampleHost activatedState) ''PATH'' = None \<and>
   stored_activeEnv (restoreEnvironment exampleHost activatedState) = None \<and>
   stored_backupEnv (restoreEnvironment exampleHost activatedState) =
     Some [(''CC'', Some ''clang''), (''PATH'', None)]"
  using restore_keeps_snapshot [OF activatedState_fields(2), of exampleHost "''PATH''"]
    activatedState_fields(2)
  by (simp add: jsMap_def effective_def)

text \<open>
  The claim as it is written fails: after a restoration from the state with an active overlay
  the persisted backup is still in the store.
\<close>

theorem restore_leaves_snapshot_in_store:
  "stored_activeEnv activatedState =
     Some (''gcc'', buildEnv, [(''CC'', ''gcc''), (''PATH'', ''/usr/bin:/opt/a/bin'')]) \<and>
   stored_backupEnv (restoreEnvironment exampleHost activatedState) =
     Some [(''CC'', Some ''clang''), (''PATH'', None)] \<and>
   stored_backupEnv (restoreEnvironment exampleHost activatedState) \<noteq> None"
  by (simp add: run_defs)


text \<open>
  The overlay \<open>readEnvFromConan\<close> returns when the parsed object has a \<open>PATH\<close> property (the
  names of an object are distinct): the entries of the parsed object, in order, with the
  directory of the interpreter and the delimiter put before the value of \<open>PATH\<close>.
\<close>

lemma assignProperty_present:
  "map_of xs key = Some w \<Longrightarrow>
   assignProperty key v xs = map (\<lambda>(k, x). if k = key then (k, v) else (k, x)) xs
     \<or> \<not> distinct (map fst xs)"
proof (induction xs)
  case Nil
  then show ?case by simp
next
  case (Cons p xs)
  obtain k x where p: "p = (k, x)" by (cases p)
  show ?case
  proof (cases "k = key")
    case True
    show ?thesis
    proof (cases "distinct (map fst (p # xs))")
      case False
      then show ?thesis by simp
    next
      case d: True
      then have "key \<notin> fst ` set xs" using True p by simp
      then have "map (\<lambda>(k, x). if k = key then (k, v) else (k, x)) xs = xs"
        by (induction xs) auto
      with True p show ?thesis by simp
    qed
  next
    case False
    with Cons p show ?thesis by auto
  qed
qed

lemma readEnvFromConan_with_PATH:
  assumes "execPrintEnv h c py a = Inr parsed"
    and "distinct (map fst parsed)"
    and "map_of parsed ''PATH'' = Some w"
  shows "readEnvFromConan h c py a =
     Inr (map (\<lambda>(k, x). if k = ''PATH'' then (k, pathDirname h py @ pathDelimiter h @ x) else (k, x))
            parsed)"
proof -
  have "x = w" if "(''PATH'', x) \<in> set parsed" for x
    using map_of_is_SomeI [OF assms(2) that] assms(3) by simp
  then have "map (\<lambda>(k, x). if k = ''PATH'' then (k, pathDirname h py @ pathDelimiter h @ x) else (k, x)) parsed =
      map (\<lambda>(k, x). if k = ''PATH'' then (k, pathDirname h py @ pathDelimiter h @ w) else (k, x)) parsed"
    by (intro map_cong) auto
  moreover have "assignProperty ''PATH'' (pathDirname h py @ pathDelimiter h @ w) parsed =
      map (\<lambda>(k, x). if k = ''PATH'' then (k, pathDirname h py @ pathDelimiter h @ w) else (k, x)) parsed"
    using assignProperty_present [OF assms(3)] assms(2) by blast
  ultimately show ?thesis
    using assms(1,3) by (simp add: readEnvFromConan_def)
qed

text \<open>
  C8, at a parsed object without \<open>PATH\<close>. The script succeeds and prints the empty object.
  The overlay is not the list of the parsed entries: it has a \<open>PATH\<close> entry, whose value ends
  in the text \<open>undefined\<close>, and applying it replaces the \<open>PATH\<close> of the process.
\<close>

theorem overlay_without_parsed_PATH:
  "execPrintEnv exampleHost buildEnv ''/usr/bin/python3'' ''-pr none'' = Inr [] \<and>
   readEnvFromConan exampleHost buildEnv ''/usr/bin/python3'' ''-pr none'' =
     Inr [(''PATH'', ''/usr/bin:undefined'')] \<and>
   processEnv
     (snd (activateEnvironment exampleHost buildEnv ''none'' ''/usr/bin/python3'' ''-pr none''
        (freshState\<lparr>processEnv := [''PATH'' \<mapsto> ''/bin'']\<rparr>))) ''PATH'' =
     Some ''/usr/bin:undefined''"
  by (simp add: run_defs)



text \<open>
  C10. Construction with a marker in the store applies the overlay stored in the marker to the
  process environment and to the environment variable collection, and mirrors it to the file
  where the mirror setting is on and a workspace is selected; the store is not written.
  Construction with no marker in the store changes nothing.
\<close>

theorem constructor_reapplies_marker:
  "(activeEnv s = None \<longrightarrow> constructor h s = s) \<and>
   (activeEnv s = Some (n, c, overlay) \<longrightarrow>
      constructor h s = updateVSCodeEnvironment h (asEnvVars overlay) s \<and>
      processEnv (constructor h s) k =
        (case map_of (rev overlay) k of
           None \<Rightarrow> processEnv s k
         | Some v \<Rightarrow> if v = [] then None else Some v) \<and>
      environmentVariableCollection (constructor h s) k =
        (case map_of (rev overlay) k of
           None \<Rightarrow> environmentVariableCollection s k
         | Some v \<Rightarrow> if v = [] then None else Some v) \<and>
      dotEnvFile (constructor h s) =
        (if isUpdateDotEnv h \<and> selectWorkspace h \<noteq> None
         then Some (join [CHR 0x0A] (map (\<lambda>(key, v). key @ ''='' @ v) overlay))
         else dotEnvFile s) \<and>
      stored_backupEnv (constructor h s) = stored_backupEnv s \<and>
      stored_activeEnv (constructor h s) = stored_activeEnv s \<and>
      stateUpdates (constructor h s) = stateUpdates s)"
proof -
  have look: "jsMap (asEnvVars overlay) k = map_option Some (map_of (rev overlay) k)"
    unfolding jsMap_def asEnvVars_def by (induction overlay rule: rev_induct) auto
  have lines: "map (\<lambda>(key, v). key @ ''='' @ template v) (asEnvVars overlay) =
      map (\<lambda>(key, v). key @ ''='' @ v) overlay"
    by (simp add: asEnvVars_def case_prod_unfold)
  from lines show ?thesis
    by (auto simp: constructor_def updateVSCodeEnvironment_processEnv
        updateVSCodeEnvironment_collection updateVSCodeEnvironment_file
        updateVSCodeEnvironment_frame look lines effective_def
        split: option.splits)
qed

text \<open>
  A run of the theorem on both sides: a new process after the restart has the marker in the
  store but \<open>CC\<close> at its old value, and construction sets it to \<open>gcc\<close>; with no marker,
  construction changes nothing.
\<close>

theorem constructor_reapplies_marker_witness:
  "activeEnv freshState = None \<and> constructor exampleHost freshState = freshState \<and>
   activeEnv (activatedState\<lparr>processEnv := [''CC'' \<mapsto> ''clang'']\<rparr>) =
     Some (''gcc'', buildEnv, [(''CC'', ''gcc''), (''PATH'', ''/usr/bin:/opt/a/bin'')]) \<and>
   processEnv (constructor exampleHost (activatedState\<lparr>processEnv := [''CC'' \<mapsto> ''clang'']\<rparr>)) ''CC'' =
     Some ''gcc''"
proof -
  have h1: "activeEnv freshState = None"
    by (simp add: activeEnv_def freshState_def)
  have h2: "activeEnv (activatedState\<lparr>processEnv := [''CC'' \<mapsto> ''clang'']\<rparr>) =
      Some (''gcc'', buildEnv, [(''CC'', ''gcc''), (''PATH'', ''/usr/bin:/opt/a/bin'')])"
    by (simp add: activeEnv_def activatedState_fields)
  from constructor_reapplies_marker [where s = freshState and h = exampleHost] h1
  have a: "constructor exampleHost freshState = freshState" by simp
  from constructor_reapplies_marker [where s = "activatedState\<lparr>processEnv := [''CC'' \<mapsto> ''clang'']\<rparr>"
      and n = "''gcc''" and c = buildEnv and overlay = "[(''CC'', ''gcc''), (''PATH'', ''/usr/bin:/opt/a/bin'')]"
      and h = exampleHost and k = "''CC''", THEN conjunct2, THEN mp, OF h2, THEN conjunct2, THEN conjunct1]
  have b: "processEnv (constructor exampleHost (activatedState\<lparr>processEnv := [''CC'' \<mapsto> ''clang'']\<rparr>)) ''CC'' =
     Some ''gcc''" by simp
  from h1 h2 a b show ?thesis by simp
qed

subsection \<open>The earlier copy\<close>

text \<open>
  For a name the prior backup tracks, the earlier copy of \<open>updateBackupEnvironment\<close> records
  the value of the new environment, neither the tracked value nor the value of the process
  environment.
\<close>

lemma updateBackupEnvironment_earlier_tracked:
  "stored_backupEnv (updateBackupEnvironment_earlier [(''CC'', Some ''gcc'')] activatedState) =
     Some [(''CC'', Some ''gcc'')]"
  "stored_backupEnv (updateBackupEnvironment [(''CC'', Some ''gcc'')] activatedState) =
     Some [(''CC'', Some ''clang'')]"
  by (simp_all add: updateBackupEnvironment_earlier_def updateBackupEnvironment_def
      activatedState_fields jsMap_def)

section \<open>The claims about the command builder\<close>

lemma join_snoc: "xs \<noteq> [] \<Longrightarrow> join sep (xs @ [y]) = join sep xs @ sep @ y"
  by (induction sep xs rule: join.induct) simp_all

lemma join_snoc2: "xs \<noteq> [] \<Longrightarrow> join sep (xs @ [y, z]) = join sep xs @ sep @ y @ sep @ z"
  using join_snoc [of "xs @ [y]" sep z] join_snoc [of xs sep y] by simp

lemma appendFlags_tokens:
  "toks \<noteq> [] \<Longrightarrow>
   appendFlags resolve ws cfg flags (join '' '' toks) =
     join '' '' (toks @ concat (map (flagTokens resolve ws cfg) flags))"
proof (induction flags arbitrary: toks)
  case Nil
  then show ?case by simp
next
  case (Cons p flags)
  obtain flag field where p: "p = (flag, field)" by (cases p)
  show ?case
  proof (cases "fieldValue cfg field")
    case None
    with Cons p show ?thesis by simp
  next
    case (Some v)
    show ?thesis
    proof (cases "v = []")
      case True
      with Some Cons p show ?thesis by simp
    next
      case False
      have "appendFlags resolve ws cfg (p # flags) (join '' '' toks) =
          appendFlags resolve ws cfg flags (join '' '' (toks @ [flag, resolve ws v]))"
        using Some False p Cons.prems by (simp add: join_snoc2)
      also have "\<dots> = join '' '' ((toks @ [flag, resolve ws v]) @
          concat (map (flagTokens resolve ws cfg) flags))"
        by (rule Cons.IH) simp
      finally show ?thesis using Some False p by simp
    qed
  qed
qed

text \<open>
  C3. Whatever the table of the kinds and the path resolver are: when the manifest field is
  set, the command line is the subcommand word, the resolved manifest path, and then for each
  optional field of the kind, in the order of the table, its flag and its resolved path when
  the field is set and no token when it is not; the tokens are joined by single spaces. For
  package-export these are the install, build, package and source folder, in this order.
\<close>

theorem build_tokens:
  assumes "conanRecipe cfg = Some recipe" and "recipe \<noteq> []"
  shows "build layout resolve kind ws cfg =
           Some (join '' '' (fst (layout kind) # resolve ws recipe #
                   concat (map (flagTokens resolve ws cfg) (snd (layout kind))))) \<and>
         (layout PackageExport = packageExportLayout \<longrightarrow>
          build layout resolve PackageExport ws cfg =
            Some (join '' '' ([''export-pkg'', resolve ws recipe] @
                   flagTokens resolve ws cfg (''-if'', InstallFolder) @
                   flagTokens resolve ws cfg (''-bf'', BuildFolder) @
                   flagTokens resolve ws cfg (''-pf'', PackageFolder) @
                   flagTokens resolve ws cfg (''-sf'', SourceFolder))))"
proof -
  have general: "build layout resolve kind ws cfg =
           Some (join '' '' (fst (layout kind) # resolve ws recipe #
                   concat (map (flagTokens resolve ws cfg) (snd (layout kind)))))" for kind
  proof -
    have "appendFlags resolve ws cfg (snd (layout kind))
          (join '' '' [fst (layout kind), resolve ws recipe]) =
        join '' '' ([fst (layout kind), resolve ws recipe] @
          concat (map (flagTokens resolve ws cfg) (snd (layout kind))))"
      by (rule appendFlags_tokens) simp
    then have "appendFlags resolve ws cfg (snd (layout kind))
          (fst (layout kind) @ '' '' @ resolve ws recipe) =
        join '' '' (fst (layout kind) # resolve ws recipe #
          concat (map (flagTokens resolve ws cfg) (snd (layout kind))))"
      by simp
    with assms show ?thesis by (simp add: build_def)
  qed
  have "build layout resolve PackageExport ws cfg =
            Some (join '' '' ([''export-pkg'', resolve ws recipe] @
                   flagTokens resolve ws cfg (''-if'', InstallFolder) @
                   flagTokens resolve ws cfg (''-bf'', BuildFolder) @
                   flagTokens resolve ws cfg (''-pf'', PackageFolder) @
                   flagTokens resolve ws cfg (''-sf'', SourceFolder)))"
    if "layout PackageExport = packageExportLayout"
    using general [of PackageExport] that
    by (simp add: packageExportLayout_def del: flagTokens.simps)
  with general show ?thesis by blast
qed

text \<open>
  A run of the theorem: the default configuration of the tests with the install folder
  cleared. Only the token \<open>-if\<close> and its path are gone.
\<close>

theorem build_tokens_witness:
  "conanRecipe (defaultConfig\<lparr>installFolder := Some []\<rparr>) = Some ''conanfile.py'' \<and>
   ''conanfile.py'' \<noteq> [] \<and>
   exampleLayout PackageExport = packageExportLayout \<and>
   build exampleLayout posixResolve PackageExport ''/home/user/ws''
       (defaultConfig\<lparr>installFolder := Some []\<rparr>) =
     Some ''export-pkg /home/user/ws/conanfile.py -bf /home/user/ws/build -pf /home/user/ws/package -sf /home/user/ws/source''"
proof -
  have h1: "conanRecipe (defaultConfig\<lparr>installFolder := Some []\<rparr>) = Some ''conanfile.py''"
    by (simp add: defaultConfig_def)
  have h2: "''conanfile.py'' \<noteq> []" by simp
  have h3: "exampleLayout PackageExport = packageExportLayout"
    by (simp add: exampleLayout_def)
  from build_tokens [OF h1 h2, where layout = exampleLayout and resolve = posixResolve
      and kind = PackageExport and ws = "''/home/user/ws''", THEN conjunct2, THEN mp, OF h3]
  show ?thesis using h1 h3
    by (simp add: defaultConfig_def posixResolve_def)
qed

text \<open>
  The loop over the optional fields raises no exception: a field reaches the resolver only
  after the test that it is neither missing nor empty.
\<close>

lemma pushFlags_never_raises:
  "pushFlags resolve ws cfg flags cmd = Inr (appendFlags resolve ws cfg flags cmd)"
proof (induction flags arbitrary: cmd)
  case Nil
  then show ?case by simp
next
  case (Cons p flags)
  obtain flag field where p: "p = (flag, field)" by (cases p)
  show ?case
  proof (cases "fieldValue cfg field")
    case None
    with Cons.IH p show ?thesis by simp
  next
    case (Some v)
    with Cons.IH p show ?thesis by (simp add: resolveField_def)
  qed
qed

text \<open>
  C4. Whatever the table of the kinds, the path resolver, the kind, the workspace root and
  the fields of the configuration are, missing ones included: the builder raises no exception,
  and what it returns is the value of \<open>build\<close>. When the manifest field is missing or is the
  empty string it returns absent, whatever the other fields are; and it returns absent in no
  other case.
\<close>

theorem buildCommand_never_raises:
  "buildCommand layout resolve kind ws cfg = Inr (build layout resolve kind ws cfg) \<and>
   ((conanRecipe cfg = None \<or> conanRecipe cfg = Some []) \<longrightarrow>
      buildCommand layout resolve kind ws cfg = Inr None) \<and>
   (buildCommand layout resolve kind ws cfg = Inr None \<longrightarrow>
      conanRecipe cfg = None \<or> conanRecipe cfg = Some [])"
proof (cases "conanRecipe cfg")
  case None
  then show ?thesis by (simp add: buildCommand_def build_def)
next
  case (Some recipe)
  show ?thesis
  proof (cases "recipe = []")
    case True
    with Some show ?thesis by (simp add: buildCommand_def build_def)
  next
    case False
    with Some have "buildCommand layout resolve kind ws cfg =
        Inr (Some (appendFlags resolve ws cfg (snd (layout kind))
                     (fst (layout kind) @ '' '' @ resolve ws recipe)))"
      by (simp add: buildCommand_def resolveField_def pushFlags_never_raises)
    with Some False show ?thesis by (simp add: build_def)
  qed
qed

text \<open>
  Two runs of the theorem. In the first the recipe and the install folder are missing, and
  the builder returns absent. In the second only the build folder is missing, and the builder
  returns the command line without the token \<open>-bf\<close>.
\<close>

theorem buildCommand_never_raises_witness:
  "(conanRecipe (defaultConfig\<lparr>conanRecipe := None, installFolder := None\<rparr>) = None \<or>
    conanRecipe (defaultConfig\<lparr>conanRecipe := None, installFolder := None\<rparr>) = Some []) \<and>
   buildCommand exampleLayout posixResolve PackageExport ''/home/user/ws''
     (defaultConfig\<lparr>conanRecipe := None, installFolder := None\<rparr>) = Inr None \<and>
   buildCommand exampleLayout posixResolve PackageExport ''/home/user/ws''
     (defaultConfig\<lparr>buildFolder := None\<rparr>) =
     Inr (Some ''export-pkg /home/user/ws/conanfile.py -if /home/user/ws/install -pf /home/user/ws/package -sf /home/user/ws/source'')"
proof -
  have h: "conanRecipe (defaultConfig\<lparr>conanRecipe := None, installFolder := None\<rparr>) = None \<or>
    conanRecipe (defaultConfig\<lparr>conanRecipe := None, installFolder := None\<rparr>) = Some []"
    by simp
  from buildCommand_never_raises [where layout = exampleLayout and resolve = posixResolve
      and kind = PackageExport and ws = "''/home/user/ws''"
      and cfg = "defaultConfig\<lparr>conanRecipe := None, installFolder := None\<rparr>",
      THEN conjunct2, THEN conjunct1, THEN mp, OF h]
  have a: "buildCommand exampleLayout posixResolve PackageExport ''/home/user/ws''
     (defaultConfig\<lparr>conanRecipe := None, installFolder := None\<rparr>) = Inr None" .
  from buildCommand_never_raises [where layout = exampleLayout and resolve = posixResolve
      and kind = PackageExport and ws = "''/home/user/ws''"
      and cfg = "defaultConfig\<lparr>buildFolder := None\<rparr>", THEN conjunct1]
  have b: "buildCommand exampleLayout posixResolve PackageExport ''/home/user/ws''
     (defaultConfig\<lparr>buildFolder := None\<rparr>) =
     Inr (Some ''export-pkg /home/user/ws/conanfile.py -if /home/user/ws/install -pf /home/user/ws/package -sf /home/user/ws/source'')"
    by (simp add: build_def exampleLayout_def packageExportLayout_def posixResolve_def
        defaultConfig_def)
  from h a b show ?thesis by simp
qed

subsection \<open>The tests of the package-export command\<close>

lemmas build_defs =
  build_def exampleLayout_def packageExportLayout_def posixResolve_def defaultConfig_def

lemma test_standard_value:
  "build exampleLayout posixResolve PackageExport ''/home/user/ws'' defaultConfig =
     Some ''export-pkg /home/user/ws/conanfile.py -if /home/user/ws/install -bf /home/user/ws/build -pf /home/user/ws/package -sf /home/user/ws/source''"
  by (simp add: build_defs)

lemma test_missing_recipe:
  "build exampleLayout posixResolve PackageExport ''/home/user/ws''
     (defaultConfig\<lparr>conanRecipe := Some []\<rparr>) = None"
  by (simp add: build_defs)

lemma test_without_install_folder:
  "build exampleLayout posixResolve PackageExport ''/home/user/ws''
     (defaultConfig\<lparr>installFolder := Some []\<rparr>) =
     Some ''export-pkg /home/user/ws/conanfile.py -bf /home/user/ws/build -pf /home/user/ws/package -sf /home/user/ws/source''"
  by (simp add: build_defs)

lemma test_without_build_folder:
  "build exampleLayout posixResolve PackageExport ''/home/user/ws''
     (defaultConfig\<lparr>installFolder := Some [], buildFolder := Some []\<rparr>) =
     Some ''export-pkg /home/user/ws/conanfile.py -pf /home/user/ws/package -sf /home/user/ws/source''"
  by (simp add: build_defs)

lemma test_without_source_folder:
  "build exampleLayout posixResolve PackageExport ''/home/user/ws''
     (defaultConfig\<lparr>installFolder := Some [], buildFolder := Some [], sourceFolder := Some []\<rparr>) =
     Some ''export-pkg /home/user/ws/conanfile.py -pf /home/user/ws/package''"
  by (simp add: build_defs)

lemma test_without_package_folder:
  "build exampleLayout posixResolve PackageExport ''/home/user/ws''
     (defaultConfig\<lparr>installFolder := Some [], buildFolder := Some [], sourceFolder := Some [],
        packageFolder := Some []\<rparr>) =
     Some ''export-pkg /home/user/ws/conanfile.py''"
  by (simp add: build_defs)


end
